theory Spec2Isabelle
  imports Main "HOL-Library.Char_ord" "HOL-Library.List_Lexorder" "HOL-Library.AList"
begin

section \<open>vapi/internal: the REST resource builder and the deferred-error body encoder\<close>

text \<open>
  A shallow embedding of \<^verbatim>\<open>vapi/internal/internal.go\<close>. Go strings are byte strings: \<open>string\<close>
  (a list of 8-bit \<open>char\<close>s). A pointer is an \<open>addr option\<close>, \<open>None\<close> being \<^verbatim>\<open>nil\<close>; the objects
  pointed to live in an explicit heap that every mutating method takes and returns. A panic is
  the \<open>Inl\<close> branch of the result.
\<close>

subsection \<open>VAPI REST paths\<close>

definition Path :: string where
  "Path = ''/rest''"

definition SessionPath :: string where
  "SessionPath = ''/com/vmware/cis/session''"

definition CategoryPath :: string where
  "CategoryPath = ''/com/vmware/cis/tagging/category''"

definition TagPath :: string where
  "TagPath = ''/com/vmware/cis/tagging/tag''"

definition AssociationPath :: string where
  "AssociationPath = ''/com/vmware/cis/tagging/tag-association''"

definition LibraryPath :: string where
  "LibraryPath = ''/com/vmware/content/library''"

definition LibraryItemFileData :: string where
  "LibraryItemFileData = ''/com/vmware/cis/data''"

definition LibraryItemPath :: string where
  "LibraryItemPath = ''/com/vmware/content/library/item''"

definition LibraryItemFilePath :: string where
  "LibraryItemFilePath = ''/com/vmware/content/library/item/file''"

definition LibraryItemUpdateSession :: string where
  "LibraryItemUpdateSession = ''/com/vmware/content/library/item/update-session''"

definition LibraryItemUpdateSessionFile :: string where
  "LibraryItemUpdateSessionFile = ''/com/vmware/content/library/item/updatesession/file''"

definition LibraryItemDownloadSession :: string where
  "LibraryItemDownloadSession = ''/com/vmware/content/library/item/download-session''"

definition LibraryItemDownloadSessionFile :: string where
  "LibraryItemDownloadSessionFile = ''/com/vmware/content/library/item/downloadsession/file''"

definition LocalLibraryPath :: string where
  "LocalLibraryPath = ''/com/vmware/content/local-library''"

definition SubscribedLibraryPath :: string where
  "SubscribedLibraryPath = ''/com/vmware/content/subscribed-library''"

definition VCenterOVFLibraryItem :: string where
  "VCenterOVFLibraryItem = ''/com/vmware/vcenter/ovf/library-item''"

definition SessionCookieName :: string where
  "SessionCookieName = ''vmware-api-session-id''"

subsection \<open>Errors and panics\<close>

datatype error =
    EOF
  | UnsupportedTypeError string
  | InvalidMethod string
  | ParseError string

datatype panic =
    NilDereference
  | Panic error

subsection \<open>The heap: url.URL objects and Resource objects\<close>

type_synonym addr = nat

text \<open>
  The fields of Go's \<^verbatim>\<open>url.URL\<close>. The field \<^verbatim>\<open>Path\<close> is \<open>url_Path\<close> here, the name \<open>Path\<close>
  being the package constant above. \<open>User\<close> is the user name with the optional password.
\<close>

record url_URL =
  Scheme :: string
  Opaque :: string
  User :: "(string \<times> string option) option"
  Host :: string
  url_Path :: string
  RawPath :: string
  ForceQuery :: bool
  RawQuery :: string
  Fragment :: string
  RawFragment :: string

text \<open>\<^verbatim>\<open>type Resource struct { u *url.URL }\<close>\<close>

record Resource =
  u :: "addr option"

text \<open>
  Every address holds an object (Go has no dangling pointers); \<open>next_Resource\<close> is the first
  address at which no \<open>Resource\<close> has been allocated yet.
\<close>

record heap =
  urls :: "addr \<Rightarrow> url_URL"
  resources :: "addr \<Rightarrow> Resource"
  next_Resource :: addr

text \<open>\<^verbatim>\<open>&Resource{...}\<close>: allocate a new \<open>Resource\<close> object and return its address.\<close>

definition new_Resource :: "Resource \<Rightarrow> heap \<Rightarrow> addr \<times> heap" where
  "new_Resource res h =
     (next_Resource h,
      h\<lparr>resources := (resources h)(next_Resource h := res),
        next_Resource := Suc (next_Resource h)\<rparr>)"

text \<open>
  \<^verbatim>\<open>r.u\<close> followed by a dereference of the result: the address of the URL object of the resource
  \<open>r\<close>, or the nil-pointer panic of the Go runtime when \<open>r\<close> or \<open>r.u\<close> is \<^verbatim>\<open>nil\<close>.
\<close>

definition deref_u :: "addr option \<Rightarrow> heap \<Rightarrow> panic + addr" where
  "deref_u r h =
     (case r of
        None \<Rightarrow> Inl NilDereference
      | Some a \<Rightarrow> (case u (resources h a) of
                    None \<Rightarrow> Inl NilDereference
                  | Some p \<Rightarrow> Inr p))"

text \<open>An assignment \<^verbatim>\<open>r.u.F = f(r.u)\<close> to fields of the URL object of \<open>r\<close>.\<close>

definition assign_u :: "addr option \<Rightarrow> (url_URL \<Rightarrow> url_URL) \<Rightarrow> heap \<Rightarrow> panic + heap" where
  "assign_u r f h =
     (case deref_u r h of
        Inl e \<Rightarrow> Inl e
      | Inr p \<Rightarrow> Inr (h\<lparr>urls := (urls h)(p := f (urls h p))\<rparr>))"

text \<open>Sequencing of two calls, the second not run when the first panics.\<close>

definition and_then :: "panic + 'a \<Rightarrow> ('a \<Rightarrow> panic + 'b) \<Rightarrow> panic + 'b" where
  "and_then m k = (case m of Inl e \<Rightarrow> Inl e | Inr x \<Rightarrow> k x)"

subsection \<open>The resource builder\<close>

text \<open>
  \<^verbatim>\<open>func URL(c CloneURL, path string) *Resource\<close>. The interface value \<open>c\<close> is its one method
  \<^verbatim>\<open>URL()\<close>: a call that returns a pointer to a URL object and may change the heap (a clone
  allocates), or panics; the \<^verbatim>\<open>nil\<close> interface value is the call that panics.
\<close>

type_synonym CloneURL = "heap \<Rightarrow> panic + (addr option \<times> heap)"

definition URL :: "CloneURL \<Rightarrow> string \<Rightarrow> heap \<Rightarrow> panic + (addr option \<times> heap)" where
  "URL c path h =
     (case c h of
        Inl e \<Rightarrow> Inl e
      | Inr (cu, h1) \<Rightarrow>
          (case new_Resource \<lparr>u = cu\<rparr> h1 of
             (r, h2) \<Rightarrow>
               (case assign_u (Some r) (\<lambda>v. v\<lparr>url_Path := Path @ path\<rparr>) h2 of
                  Inl e \<Rightarrow> Inl e
                | Inr h3 \<Rightarrow> Inr (Some r, h3))))"

text \<open>\<^verbatim>\<open>func (r *Resource) WithID(id string) *Resource\<close>\<close>

definition WithID :: "addr option \<Rightarrow> string \<Rightarrow> heap \<Rightarrow> panic + (addr option \<times> heap)" where
  "WithID r ident h =
     (case assign_u r (\<lambda>v. v\<lparr>url_Path := url_Path v @ ''/id:'' @ ident\<rparr>) h of
        Inl e \<Rightarrow> Inl e
      | Inr h' \<Rightarrow> Inr (r, h'))"

subsection \<open>Query strings: \<^verbatim>\<open>url.Values\<close> and its \<^verbatim>\<open>Encode\<close>\<close>

text \<open>
  \<^verbatim>\<open>net/url\<close>'s \<^verbatim>\<open>shouldEscape(c, encodeQueryComponent)\<close>: letters, digits and the four marks
  \<^verbatim>\<open>- _ . ~\<close> are kept, every other byte is escaped.
\<close>

definition shouldEscape :: "char \<Rightarrow> bool" where
  "shouldEscape c =
     (if (CHR ''a'' \<le> c \<and> c \<le> CHR ''z'') \<or> (CHR ''A'' \<le> c \<and> c \<le> CHR ''Z'')
          \<or> (CHR ''0'' \<le> c \<and> c \<le> CHR ''9'') then False
      else if c = CHR ''-'' \<or> c = CHR ''_'' \<or> c = CHR ''.'' \<or> c = CHR ''~'' then False
      else True)"

definition upperhex :: string where
  "upperhex = ''0123456789ABCDEF''"

text \<open>What \<^verbatim>\<open>escape(s, encodeQueryComponent)\<close> writes for one byte of its input.\<close>

definition escape_byte :: "char \<Rightarrow> string" where
  "escape_byte c =
     (if c = CHR '' '' then ''+''
      else if shouldEscape c then
        [CHR ''%'', upperhex ! (of_char c div 16), upperhex ! (of_char c mod 16)]
      else [c])"

fun escape :: "string \<Rightarrow> string" where
  "escape [] = []"
| "escape (c # s) = escape_byte c @ escape s"

definition QueryEscape :: "string \<Rightarrow> string" where
  "QueryEscape s = escape s"

text \<open>
  \<^verbatim>\<open>url.Values\<close> is a \<^verbatim>\<open>map[string][]string\<close>: an association list with one entry per key.
  \<^verbatim>\<open>Set\<close> replaces the values of its key.
\<close>

type_synonym Values = "(string \<times> string list) list"

definition Values_Set :: "Values \<Rightarrow> string \<Rightarrow> string \<Rightarrow> Values" where
  "Values_Set v key val = AList.update key [val] v"

text \<open>
  \<^verbatim>\<open>Values.Encode\<close>: the keys in sorted order, and for every value of a key
  \<^verbatim>\<open>QueryEscape(key) = QueryEscape(value)\<close>, an \<^verbatim>\<open>&\<close> before it when the buffer is not empty.
\<close>

fun Encode_values :: "string \<Rightarrow> string list \<Rightarrow> string \<Rightarrow> string" where
  "Encode_values keyEscaped [] buf = buf"
| "Encode_values keyEscaped (v # vs) buf =
     Encode_values keyEscaped vs
       ((if buf \<noteq> [] then buf @ ''&'' else buf) @ keyEscaped @ ''='' @ QueryEscape v)"

fun Encode_keys :: "Values \<Rightarrow> string \<Rightarrow> string" where
  "Encode_keys [] buf = buf"
| "Encode_keys ((k, vs) # kvs) buf = Encode_keys kvs (Encode_values (QueryEscape k) vs buf)"

definition Values_Encode :: "Values \<Rightarrow> string" where
  "Values_Encode v = (if v = [] then [] else Encode_keys (sort_key fst v) [])"

text \<open>\<^verbatim>\<open>func (r *Resource) WithAction(action string) *Resource\<close>\<close>

definition WithAction :: "addr option \<Rightarrow> string \<Rightarrow> heap \<Rightarrow> panic + (addr option \<times> heap)" where
  "WithAction r action h =
     (case assign_u r (\<lambda>v. v\<lparr>RawQuery := Values_Encode [(''~action'', [action])]\<rparr>) h of
        Inl e \<Rightarrow> Inl e
      | Inr h' \<Rightarrow> Inr (r, h'))"

text \<open>\<^verbatim>\<open>func (r *Resource) WithParameter(name string, value string) *Resource\<close>\<close>

definition WithParameter ::
  "addr option \<Rightarrow> string \<Rightarrow> string \<Rightarrow> heap \<Rightarrow> panic + (addr option \<times> heap)" where
  "WithParameter r name val h =
     (let parameter = Values_Set [] name val in
      case assign_u r (\<lambda>v. v\<lparr>RawQuery := Values_Encode parameter\<rparr>) h of
        Inl e \<Rightarrow> Inl e
      | Inr h' \<Rightarrow> Inr (r, h'))"

subsection \<open>The wire types of tag association\<close>

text \<open>
  Modelled from the spec: \<^verbatim>\<open>types.ManagedObjectReference\<close> of package \<^verbatim>\<open>vim25/types\<close>, whose
  declaration is not part of this unit. It is the managed-object reference, a type name paired
  with an identifier; the conversions below are between struct types, which Go allows only
  when both have the same fields, so its fields are \<^verbatim>\<open>Type\<close> and \<^verbatim>\<open>Value\<close>, both strings.
\<close>

record ManagedObjectReference =
  Type :: string
  Value :: string

text \<open>
  \<^verbatim>\<open>type AssociatedObject struct { Type string `json:"type"`; Value string `json:"id"` }\<close>
\<close>

record AssociatedObject =
  Type :: string
  Value :: string

text \<open>
  \<^verbatim>\<open>type Association struct { ObjectID *AssociatedObject `json:"object_id,omitempty"` }\<close>.
  The object pointed to is never shared or mutated, so the pointer is an optional value.
\<close>

record Association =
  ObjectID :: "AssociatedObject option"

text \<open>The two struct conversions \<^verbatim>\<open>types.ManagedObjectReference(o)\<close> and \<^verbatim>\<open>AssociatedObject(m)\<close>.\<close>

definition to_ManagedObjectReference :: "AssociatedObject \<Rightarrow> ManagedObjectReference" where
  "to_ManagedObjectReference obj =
     \<lparr>ManagedObjectReference.Type = AssociatedObject.Type obj,
      ManagedObjectReference.Value = AssociatedObject.Value obj\<rparr>"

definition to_AssociatedObject :: "ManagedObjectReference \<Rightarrow> AssociatedObject" where
  "to_AssociatedObject m =
     \<lparr>AssociatedObject.Type = ManagedObjectReference.Type m,
      AssociatedObject.Value = ManagedObjectReference.Value m\<rparr>"

text \<open>\<^verbatim>\<open>func (o AssociatedObject) Reference() types.ManagedObjectReference\<close>\<close>

definition Reference :: "AssociatedObject \<Rightarrow> ManagedObjectReference" where
  "Reference obj = to_ManagedObjectReference obj"

text \<open>
  \<^verbatim>\<open>func NewAssociation(ref mo.Reference) Association\<close>. A value of the interface
  \<^verbatim>\<open>mo.Reference\<close> is \<^verbatim>\<open>nil\<close> (\<open>None\<close>) or an object of some type \<open>'r\<close>, and comes with the
  \<^verbatim>\<open>Reference()\<close> method of that type, \<open>method\<close>, which may itself panic.
\<close>

definition NewAssociation ::
  "('r \<Rightarrow> panic + ManagedObjectReference) \<Rightarrow> 'r option \<Rightarrow> panic + Association" where
  "NewAssociation method ref =
     (case ref of
        None \<Rightarrow> Inl NilDereference
      | Some x \<Rightarrow> (case method x of
                    Inl e \<Rightarrow> Inl e
                  | Inr m \<Rightarrow> Inr \<lparr>ObjectID = Some (to_AssociatedObject m)\<rparr>))"

subsection \<open>JSON encoding of Go values\<close>

text \<open>
  The Go values this development passes to \<^verbatim>\<open>encoding/json\<close>: the nil interface, booleans,
  strings, pointers, structs (each field with the name and the \<^verbatim>\<open>omitempty\<close> option of its
  \<^verbatim>\<open>json\<close> tag) and two of the kinds that have no JSON encoding, channels and functions.
  A value is a finite tree, so a structure that points back to itself is not among them.
\<close>

datatype go_value =
    GoNil
  | GoBool bool
  | GoString string
  | GoPtr "go_value option"
  | GoStruct "field list"
  | GoChan
  | GoFunc
and field = Field string bool go_value

text \<open>The two wire types as Go values, with the \<^verbatim>\<open>json\<close> tags of their declarations.\<close>

definition AssociatedObject_value :: "AssociatedObject \<Rightarrow> go_value" where
  "AssociatedObject_value obj =
     GoStruct [Field ''type'' False (GoString (AssociatedObject.Type obj)),
               Field ''id'' False (GoString (AssociatedObject.Value obj))]"

definition Association_value :: "Association \<Rightarrow> go_value" where
  "Association_value a =
     GoStruct [Field ''object_id'' True (GoPtr (map_option AssociatedObject_value (ObjectID a)))]"

text \<open>
  JSON string literals as \<^verbatim>\<open>encoding/json\<close> writes them with HTML escaping on, the default of
  an \<^verbatim>\<open>Encoder\<close>. \<open>htmlSafe\<close> is the table \<^verbatim>\<open>htmlSafeSet\<close>: the bytes from the space to 0x7f
  but for the double quote, the backslash and the three of HTML.
\<close>

definition hex :: string where
  "hex = ''0123456789abcdef''"

definition htmlSafe :: "char \<Rightarrow> bool" where
  "htmlSafe b =
     (CHR 0x20 \<le> b \<and> b \<le> CHR 0x7F \<and> b \<noteq> CHR 0x22 \<and> b \<noteq> CHR 0x5C
      \<and> b \<noteq> CHR ''&'' \<and> b \<noteq> CHR ''<'' \<and> b \<noteq> CHR ''>'')"

definition escape_ascii :: "char \<Rightarrow> string" where
  "escape_ascii b =
     (if b = CHR 0x5C \<or> b = CHR 0x22 then [CHR 0x5C, b]
      else if b = CHR 0x08 then [CHR 0x5C, CHR ''b'']
      else if b = CHR 0x0C then [CHR 0x5C, CHR ''f'']
      else if b = CHR 0x0A then [CHR 0x5C, CHR ''n'']
      else if b = CHR 0x0D then [CHR 0x5C, CHR ''r'']
      else if b = CHR 0x09 then [CHR 0x5C, CHR ''t'']
      else [CHR 0x5C, CHR ''u'', CHR ''0'', CHR ''0'',
            hex ! (of_char b div 16), hex ! (of_char b mod 16)])"

text \<open>
  The size that \<^verbatim>\<open>utf8.DecodeRuneInString\<close> returns for a string whose first byte is not
  ASCII: 2, 3 or 4 for a well-formed encoding, 1 for an ill-formed one (the rune is then
  \<^verbatim>\<open>RuneError\<close>).
\<close>

definition cont :: "char \<Rightarrow> bool" where
  "cont c = (CHR 0x80 \<le> c \<and> c \<le> CHR 0xBF)"

definition rune_size :: "char \<Rightarrow> string \<Rightarrow> nat" where
  "rune_size s0 t =
     (if CHR 0xC2 \<le> s0 \<and> s0 \<le> CHR 0xDF then
        (case t of s1 # _ \<Rightarrow> if cont s1 then 2 else 1 | _ \<Rightarrow> 1)
      else if CHR 0xE0 \<le> s0 \<and> s0 \<le> CHR 0xEF then
        (case t of
           s1 # s2 # _ \<Rightarrow>
             if (if s0 = CHR 0xE0 then CHR 0xA0 else CHR 0x80) \<le> s1
                \<and> s1 \<le> (if s0 = CHR 0xED then CHR 0x9F else CHR 0xBF) \<and> cont s2
             then 3 else 1
         | _ \<Rightarrow> 1)
      else if CHR 0xF0 \<le> s0 \<and> s0 \<le> CHR 0xF4 then
        (case t of
           s1 # s2 # s3 # _ \<Rightarrow>
             if (if s0 = CHR 0xF0 then CHR 0x90 else CHR 0x80) \<le> s1
                \<and> s1 \<le> (if s0 = CHR 0xF4 then CHR 0x8F else CHR 0xBF) \<and> cont s2 \<and> cont s3
             then 4 else 1
         | _ \<Rightarrow> 1)
      else 1)"

text \<open>
  The body of a string literal: safe ASCII bytes and well-formed runes are copied, the other
  ASCII bytes are escaped, an ill-formed byte becomes the escape of U+FFFD, and the line and
  paragraph separators U+2028 and U+2029 (E2 80 A8 and E2 80 A9) are written as escapes.
\<close>

fun quote_bytes :: "string \<Rightarrow> string" where
  "quote_bytes [] = []"
| "quote_bytes (b # s) =
     (if b < CHR 0x80 then
        (if htmlSafe b then [b] else escape_ascii b) @ quote_bytes s
      else if rune_size b s = 1 then
        [CHR 0x5C, CHR ''u'', CHR ''f'', CHR ''f'', CHR ''f'', CHR ''d''] @ quote_bytes s
      else if b = CHR 0xE2 \<and> take 2 s = [CHR 0x80, CHR 0xA8] then
        [CHR 0x5C, CHR ''u'', CHR ''2'', CHR ''0'', CHR ''2'', CHR ''8''] @ quote_bytes (drop 2 s)
      else if b = CHR 0xE2 \<and> take 2 s = [CHR 0x80, CHR 0xA9] then
        [CHR 0x5C, CHR ''u'', CHR ''2'', CHR ''0'', CHR ''2'', CHR ''9''] @ quote_bytes (drop 2 s)
      else
        b # take (rune_size b s - 1) s @ quote_bytes (drop (rune_size b s - 1) s))"

definition quote :: "string \<Rightarrow> string" where
  "quote s = [CHR 0x22] @ quote_bytes s @ [CHR 0x22]"

text \<open>\<^verbatim>\<open>isEmptyValue\<close>, which decides whether an \<^verbatim>\<open>omitempty\<close> field is left out.\<close>

fun isEmptyValue :: "go_value \<Rightarrow> bool" where
  "isEmptyValue (GoString s) = (s = [])"
| "isEmptyValue (GoBool b) = (b = False)"
| "isEmptyValue GoNil = True"
| "isEmptyValue (GoPtr p) = (p = None)"
| "isEmptyValue (GoStruct fs) = False"
| "isEmptyValue GoChan = False"
| "isEmptyValue GoFunc = False"

text \<open>
  \<^verbatim>\<open>json.Marshal\<close>: the JSON text of a value, or the error. The struct encoder writes an opening
  brace before the first field it keeps and a comma before each later one; \<open>next\<close> is that
  byte. A field name is written as a string literal: a name that a \<^verbatim>\<open>json\<close> tag may give has
  no quote, backslash or control character, and for such a name the literal is the text that
  Go precomputes for the field. An error anywhere discards the output.
\<close>

fun Marshal :: "go_value \<Rightarrow> error + string"
  and Marshal_fields :: "char \<Rightarrow> field list \<Rightarrow> error + string" where
  "Marshal GoNil = Inr ''null''"
| "Marshal (GoBool b) = Inr (if b then ''true'' else ''false'')"
| "Marshal (GoString s) = Inr (quote s)"
| "Marshal (GoPtr None) = Inr ''null''"
| "Marshal (GoPtr (Some v)) = Marshal v"
| "Marshal (GoStruct fs) = Marshal_fields (CHR ''{'') fs"
| "Marshal GoChan = Inl (UnsupportedTypeError ''chan'')"
| "Marshal GoFunc = Inl (UnsupportedTypeError ''func'')"
| "Marshal_fields next [] = Inr (if next = CHR ''{'' then ''{}'' else ''}'')"
| "Marshal_fields next (Field name omitEmpty fv # fs) =
     (if omitEmpty \<and> isEmptyValue fv then Marshal_fields next fs
      else case Marshal fv of
             Inl err \<Rightarrow> Inl err
           | Inr s \<Rightarrow> (case Marshal_fields (CHR '','') fs of
                        Inl err \<Rightarrow> Inl err
                      | Inr t \<Rightarrow> Inr (next # quote name @ '':'' @ s @ t)))"

subsection \<open>Readers and the body encoder\<close>

text \<open>
  The readers of this unit: \<^verbatim>\<open>io.MultiReader()\<close> of no readers, a \<^verbatim>\<open>*bytes.Buffer\<close> with its
  unread bytes, the \<^verbatim>\<open>errorReader\<close> of the source, and \<^verbatim>\<open>http.NoBody\<close>.
\<close>

datatype reader =
    MultiReader
  | Buffer string
  | errorReader error
  | NoBody

text \<open>
  \<^verbatim>\<open>Read(p)\<close> for a slice \<open>p\<close> of length \<open>n\<close>: the count, the error (\<open>None\<close> is \<^verbatim>\<open>nil\<close>) and the bytes
  stored in \<open>p\<close>, with the reader after the call.
  \<^verbatim>\<open>func (e errorReader) Read([]byte) (int, error) { return -1, e.e }\<close>
\<close>

fun Read :: "reader \<Rightarrow> nat \<Rightarrow> (int \<times> error option \<times> string) \<times> reader" where
  "Read (errorReader e) n = ((- 1, Some e, []), errorReader e)"
| "Read MultiReader n = ((0, Some EOF, []), MultiReader)"
| "Read NoBody n = ((0, Some EOF, []), NoBody)"
| "Read (Buffer b) n =
     (if b = [] then
        (if n = 0 then ((0, None, []), Buffer []) else ((0, Some EOF, []), Buffer []))
      else ((int (min n (length b)), None, take n b), Buffer (drop n b)))"

text \<open>Successive calls of \<^verbatim>\<open>Read\<close> on one reader, with slices of the given lengths.\<close>

fun Reads :: "reader \<Rightarrow> nat list \<Rightarrow> (int \<times> error option \<times> string) list" where
  "Reads rd [] = []"
| "Reads rd (n # ns) = (case Read rd n of (res, rd') \<Rightarrow> res # Reads rd' ns)"

text \<open>
  \<^verbatim>\<open>json.NewEncoder(&b).Encode(body)\<close>: the JSON text and a newline are appended to the buffer,
  or the error is returned and the buffer is left as it was.
\<close>

definition Encoder_Encode :: "string \<Rightarrow> go_value \<Rightarrow> string \<times> error option" where
  "Encoder_Encode b body =
     (case Marshal body of
        Inl err \<Rightarrow> (b, Some err)
      | Inr s \<Rightarrow> (b @ s @ [CHR 0x0A], None))"

text \<open>\<^verbatim>\<open>func encode(body interface{}) io.Reader\<close>\<close>

definition encode :: "go_value \<Rightarrow> reader" where
  "encode body =
     (case Encoder_Encode [] body of
        (b, Some err) \<Rightarrow> errorReader err
      | (b, None) \<Rightarrow> Buffer b)"

subsection \<open>Requests\<close>

text \<open>The fields of \<^verbatim>\<open>http.Request\<close> that \<^verbatim>\<open>http.NewRequest\<close> computes from its arguments.\<close>

record http_Request =
  Method :: string
  req_URL :: url_URL
  Body :: reader
  ContentLength :: int

text \<open>
  \<^verbatim>\<open>net/http\<close>'s \<^verbatim>\<open>validMethod\<close>: a method is a non-empty string of token bytes.
\<close>

definition isTokenByte :: "char \<Rightarrow> bool" where
  "isTokenByte c =
     ((CHR ''a'' \<le> c \<and> c \<le> CHR ''z'') \<or> (CHR ''A'' \<le> c \<and> c \<le> CHR ''Z'')
      \<or> (CHR ''0'' \<le> c \<and> c \<le> CHR ''9'') \<or> c \<in> set ''!#$%&*+-.^_`|~'' \<or> c = CHR 0x27)"

definition validMethod :: "string \<Rightarrow> bool" where
  "validMethod method = (method \<noteq> [] \<and> list_all isTokenByte method)"

text \<open>
  \<^verbatim>\<open>http.NewRequest(method, url, body)\<close>. The parser of the URL string, \<^verbatim>\<open>url.Parse\<close> with the
  normalisation of the port, is the parameter \<open>url_Parse\<close>. A buffer as body gives the content
  length, and an empty one is replaced by \<^verbatim>\<open>NoBody\<close>.
\<close>

definition NewRequest ::
  "(string \<Rightarrow> error + url_URL) \<Rightarrow> string \<Rightarrow> string \<Rightarrow> reader \<Rightarrow> error + http_Request" where
  "NewRequest url_Parse method urlStr body =
     (let m = (if method = [] then ''GET'' else method) in
      if \<not> validMethod m then Inl (InvalidMethod m)
      else case url_Parse urlStr of
             Inl err \<Rightarrow> Inl err
           | Inr pu \<Rightarrow>
               Inr \<lparr>Method = m, req_URL = pu,
                    Body = (case body of Buffer b \<Rightarrow> if b = [] then NoBody else body | _ \<Rightarrow> body),
                    ContentLength = (case body of Buffer b \<Rightarrow> int (length b) | _ \<Rightarrow> 0)\<rparr>)"

text \<open>
  \<^verbatim>\<open>func (r *Resource) Request(method string, body ...interface{}) *http.Request\<close>. The variadic
  \<open>body\<close> is a list; \<^verbatim>\<open>r.u.String()\<close> is the parameter \<open>url_String\<close> applied to the URL object.
\<close>

definition Request ::
  "(url_URL \<Rightarrow> string) \<Rightarrow> (string \<Rightarrow> error + url_URL) \<Rightarrow>
   addr option \<Rightarrow> string \<Rightarrow> go_value list \<Rightarrow> heap \<Rightarrow> panic + http_Request" where
  "Request url_String url_Parse r method body h =
     (let rdr = (if length body \<noteq> 0 then encode (body ! 0) else MultiReader) in
      case deref_u r h of
        Inl e \<Rightarrow> Inl e
      | Inr p \<Rightarrow> (case NewRequest url_Parse method (url_String (urls h p)) rdr of
                    Inl err \<Rightarrow> Inl (Panic err)
                  | Inr req \<Rightarrow> Inr req))"

text \<open>\<^verbatim>\<open>func (r *Resource) String() string\<close>, with \<^verbatim>\<open>URL.String\<close> as the parameter \<open>url_String\<close>.\<close>

definition Resource_String :: "(url_URL \<Rightarrow> string) \<Rightarrow> addr option \<Rightarrow> heap \<Rightarrow> panic + string" where
  "Resource_String url_String r h =
     (case deref_u r h of
        Inl e \<Rightarrow> Inl e
      | Inr p \<Rightarrow> Inr (url_String (urls h p)))"

text \<open>The path and the query string of the URL of a resource, as the heap has them.\<close>

definition path_of :: "addr option \<Rightarrow> heap \<Rightarrow> string option" where
  "path_of r h = (case deref_u r h of Inl e \<Rightarrow> None | Inr p \<Rightarrow> Some (url_Path (urls h p)))"

definition query_of :: "addr option \<Rightarrow> heap \<Rightarrow> string option" where
  "query_of r h = (case deref_u r h of Inl e \<Rightarrow> None | Inr p \<Rightarrow> Some (RawQuery (urls h p)))"

definition result_path :: "panic + (addr option \<times> heap) \<Rightarrow> string option" where
  "result_path res = (case res of Inl e \<Rightarrow> None | Inr (r, h) \<Rightarrow> path_of r h)"

definition result_query :: "panic + (addr option \<times> heap) \<Rightarrow> string option" where
  "result_query res = (case res of Inl e \<Rightarrow> None | Inr (r, h) \<Rightarrow> query_of r h)"

subsection \<open>Concrete inputs\<close>

text \<open>
  A heap with no resource allocated, and two connections: one whose \<^verbatim>\<open>URL()\<close> hands out a
  clone of \<^verbatim>\<open>https://host\<close>, one whose base URL is \<^verbatim>\<open>https://host/sdk?x=1\<close>. Each stores its
  clone at address 0.
\<close>

definition no_URL :: url_URL where
  "no_URL = \<lparr>Scheme = [], Opaque = [], User = None, Host = [], url_Path = [], RawPath = [],
             ForceQuery = False, RawQuery = [], Fragment = [], RawFragment = []\<rparr>"

definition empty_heap :: heap where
  "empty_heap = \<lparr>urls = (\<lambda>a. no_URL), resources = (\<lambda>a. \<lparr>u = None\<rparr>), next_Resource = 0\<rparr>"

definition host_client :: CloneURL where
  "host_client h =
     Inr (Some 0, h\<lparr>urls := (urls h)(0 := no_URL\<lparr>Scheme := ''https'', Host := ''host''\<rparr>)\<rparr>)"

definition sdk_query_client :: CloneURL where
  "sdk_query_client h =
     Inr (Some 0, h\<lparr>urls := (urls h)(0 := no_URL\<lparr>Scheme := ''https'', Host := ''host'',
                                               url_Path := ''/sdk'', RawQuery := ''x=1''\<rparr>)\<rparr>)"

text \<open>The heap after \<^verbatim>\<open>URL(c, LibraryPath)\<close> on the first connection; its resource is at address 0.\<close>

definition library_heap :: heap where
  "library_heap = (case URL host_client LibraryPath empty_heap of Inl e \<Rightarrow> empty_heap | Inr (r, h) \<Rightarrow> h)"

text \<open>Stand-ins for \<^verbatim>\<open>URL.String\<close> and \<^verbatim>\<open>url.Parse\<close> on URLs of a scheme, a host and a path.\<close>

definition simple_String :: "url_URL \<Rightarrow> string" where
  "simple_String v = Scheme v @ ''://'' @ Host v @ url_Path v"

definition simple_Parse :: "string \<Rightarrow> error + url_URL" where
  "simple_Parse s =
     (if take 8 s = ''https://'' then
        Inr (no_URL\<lparr>Scheme := ''https'', Host := takeWhile (\<lambda>c. c \<noteq> CHR ''/'') (drop 8 s),
                    url_Path := dropWhile (\<lambda>c. c \<noteq> CHR ''/'') (drop 8 s)\<rparr>)
      else Inl (ParseError s))"

text \<open>\<^verbatim>\<open>AssociatedObject\<close> as an implementation of \<^verbatim>\<open>mo.Reference\<close>: its method never panics.\<close>

definition AssociatedObject_method :: "AssociatedObject \<Rightarrow> panic + ManagedObjectReference" where
  "AssociatedObject_method obj = Inr (Reference obj)"

section \<open>Properties\<close>

subsection \<open>The heap and the concrete inputs\<close>

lemma deref_u_assign:
  "deref_u r (h\<lparr>urls := us\<rparr>) = deref_u r h"
  by (simp add: deref_u_def split: option.splits)

lemma result_query_Inr:
  "deref_u r h = Inr p \<Longrightarrow>
   result_query (Inr (r, h\<lparr>urls := (urls h)(p := v)\<rparr>)) = Some (RawQuery v)"
  by (simp add: result_query_def query_of_def deref_u_assign)

lemma result_path_Inr:
  "deref_u r h = Inr p \<Longrightarrow>
   result_path (Inr (r, h\<lparr>urls := (urls h)(p := v)\<rparr>)) = Some (url_Path v)"
  by (simp add: result_path_def path_of_def deref_u_assign)

lemma library_heap_deref:
  "deref_u (Some 0) library_heap = Inr 0"
  by (simp add: library_heap_def URL_def host_client_def new_Resource_def assign_u_def
      deref_u_def empty_heap_def)

lemma library_heap_url:
  "urls library_heap 0 =
     no_URL\<lparr>Scheme := ''https'', Host := ''host'', url_Path := ''/rest/com/vmware/content/library''\<rparr>"
  by (simp add: library_heap_def URL_def host_client_def new_Resource_def assign_u_def
      deref_u_def empty_heap_def Path_def LibraryPath_def)

subsection \<open>URL\<close>

text \<open>
  Claim C1, as stated, at a concrete input. The connection's base URL is
  \<^verbatim>\<open>https://host/sdk?x=1\<close>; the resource that \<open>URL\<close> returns for the session path has the path
  \<^verbatim>\<open>/rest/com/vmware/cis/session\<close>, and its query string is \<^verbatim>\<open>x=1\<close>, not the empty one: \<open>URL\<close>
  assigns the path and nothing else.
\<close>

theorem URL_query_counterexample:
  "result_path (URL sdk_query_client SessionPath empty_heap) = Some ''/rest/com/vmware/cis/session''
   \<and> result_query (URL sdk_query_client SessionPath empty_heap) = Some ''x=1''"
  by (simp add: URL_def sdk_query_client_def new_Resource_def assign_u_def deref_u_def
      result_path_def path_of_def result_query_def query_of_def empty_heap_def
      Path_def SessionPath_def)

text \<open>
  Claim C1, amended. When the connection's \<^verbatim>\<open>URL()\<close> returns a pointer \<open>p\<close> to a URL object,
  \<open>URL c path\<close> returns a new resource whose \<open>u\<close> is \<open>p\<close>; the URL object has the path \<^verbatim>\<open>/rest\<close>
  followed by \<open>path\<close>, whatever its path was, and every other field as the connection left it.
  So the query string of the resource is the query string of the base URL: there is none when
  the base URL has none.
\<close>

theorem URL_path_and_inherited_query:
  assumes "c h = Inr (Some p, h1)"
  shows "\<exists>r h'. URL c path h = Inr (Some r, h')
           \<and> deref_u (Some r) h' = Inr p
           \<and> urls h' = (urls h1)(p := (urls h1 p)\<lparr>url_Path := ''/rest'' @ path\<rparr>)
           \<and> path_of (Some r) h' = Some (''/rest'' @ path)
           \<and> query_of (Some r) h' = Some (RawQuery (urls h1 p))"
  using assms
  by (simp add: URL_def new_Resource_def assign_u_def deref_u_def path_of_def query_of_def
      Path_def)

theorem URL_path_and_inherited_query_witness:
  "host_client empty_heap =
     Inr (Some 0, empty_heap\<lparr>urls := (urls empty_heap)
                               (0 := no_URL\<lparr>Scheme := ''https'', Host := ''host''\<rparr>)\<rparr>)
   \<and> result_path (URL host_client SessionPath empty_heap) = Some ''/rest/com/vmware/cis/session''
   \<and> result_query (URL host_client SessionPath empty_heap) = Some []"
proof -
  have c: "host_client empty_heap =
     Inr (Some 0, empty_heap\<lparr>urls := (urls empty_heap)
                               (0 := no_URL\<lparr>Scheme := ''https'', Host := ''host''\<rparr>)\<rparr>)"
    by (simp add: host_client_def)
  from URL_path_and_inherited_query [where c = host_client and h = empty_heap and path = SessionPath, OF c]
  obtain r h' where res: "URL host_client SessionPath empty_heap = Inr (Some r, h')"
    and p: "path_of (Some r) h' = Some (''/rest'' @ SessionPath)"
    and q: "query_of (Some r) h' =
              Some (RawQuery (urls (empty_heap\<lparr>urls := (urls empty_heap)
                (0 := no_URL\<lparr>Scheme := ''https'', Host := ''host''\<rparr>)\<rparr>) 0))"
    by blast
  have "result_path (URL host_client SessionPath empty_heap) = Some (''/rest'' @ SessionPath)"
    by (simp add: res result_path_def p)
  then have a: "result_path (URL host_client SessionPath empty_heap) =
                  Some ''/rest/com/vmware/cis/session''"
    by (simp add: SessionPath_def)
  have b: "result_query (URL host_client SessionPath empty_heap) = Some []"
    by (simp add: res result_query_def q no_URL_def)
  show ?thesis
    by (intro conjI c a b)
qed

subsection \<open>WithID\<close>

text \<open>
  Claim C4. For every resource \<open>r\<close> (a pointer to a \<open>Resource\<close> whose \<open>u\<close> points to a URL object
  \<open>p\<close>) and every id \<open>i\<close>, \<open>WithID\<close> returns the pointer \<open>r\<close> it was called on, and the heap it
  leaves differs from the one before in the path of \<open>p\<close> only, which is the old path followed by
  \<^verbatim>\<open>/id:\<close> and \<open>i\<close>. Two calls in a row, with \<open>i\<close> and then \<open>j\<close>, leave the old path followed by
  \<^verbatim>\<open>/id:\<close>, \<open>i\<close>, \<^verbatim>\<open>/id:\<close>, \<open>j\<close>.
\<close>

theorem WithID_appends:
  assumes "deref_u r h = Inr p"
  shows "WithID r i h =
           Inr (r, h\<lparr>urls := (urls h)(p := (urls h p)\<lparr>url_Path :=
                       url_Path (urls h p) @ ''/id:'' @ i\<rparr>)\<rparr>)
       \<and> and_then (WithID r i h) (\<lambda>(r', h'). WithID r' j h') =
           Inr (r, h\<lparr>urls := (urls h)(p := (urls h p)\<lparr>url_Path :=
                       url_Path (urls h p) @ ''/id:'' @ i @ ''/id:'' @ j\<rparr>)\<rparr>)"
  using assms by (simp add: WithID_def assign_u_def and_then_def deref_u_assign)

theorem WithID_appends_witness:
  "deref_u (Some 0) library_heap = Inr 0
   \<and> result_path (WithID (Some 0) ''lib-1'' library_heap) =
       Some ''/rest/com/vmware/content/library/id:lib-1''
   \<and> result_path (and_then (WithID (Some 0) ''lib-1'' library_heap)
                             (\<lambda>(r', h'). WithID r' ''v2'' h')) =
       Some ''/rest/com/vmware/content/library/id:lib-1/id:v2''"
proof -
  note d = library_heap_deref
  note t = WithID_appends [OF d, of "''lib-1''" "''v2''"]
  have a: "result_path (WithID (Some 0) ''lib-1'' library_heap) =
             Some ''/rest/com/vmware/content/library/id:lib-1''"
    by (simp add: conjunct1 [OF t] result_path_def path_of_def deref_u_assign d library_heap_url)
  have b: "result_path (and_then (WithID (Some 0) ''lib-1'' library_heap)
                                 (\<lambda>(r', h'). WithID r' ''v2'' h')) =
             Some ''/rest/com/vmware/content/library/id:lib-1/id:v2''"
    by (simp add: conjunct2 [OF t] result_path_def path_of_def deref_u_assign d library_heap_url)
  show ?thesis
    by (intro conjI d a b)
qed

subsection \<open>WithAction and WithParameter\<close>

lemma Values_Encode_single:
  "Values_Encode [(k, [v])] = QueryEscape k @ ''='' @ QueryEscape v"
  by (simp add: Values_Encode_def)

lemma QueryEscape_action:
  "QueryEscape ''~action'' = ''~action''"
  by (simp add: QueryEscape_def escape_byte_def shouldEscape_def)

lemma WithAction_ok:
  "deref_u r h = Inr p \<Longrightarrow>
   WithAction r a h =
     Inr (r, h\<lparr>urls := (urls h)(p := (urls h p)\<lparr>RawQuery := ''~action='' @ QueryEscape a\<rparr>)\<rparr>)"
  by (simp add: WithAction_def assign_u_def Values_Encode_single QueryEscape_action)

lemma WithParameter_ok:
  "deref_u r h = Inr p \<Longrightarrow>
   WithParameter r n v h =
     Inr (r, h\<lparr>urls := (urls h)(p := (urls h p)\<lparr>RawQuery :=
                 QueryEscape n @ ''='' @ QueryEscape v\<rparr>)\<rparr>)"
  by (simp add: WithParameter_def assign_u_def Values_Set_def Values_Encode_single)

lemma WithID_ok:
  "deref_u r h = Inr p \<Longrightarrow>
   WithID r i h =
     Inr (r, h\<lparr>urls := (urls h)(p := (urls h p)\<lparr>url_Path := url_Path (urls h p) @ ''/id:'' @ i\<rparr>)\<rparr>)"
  by (simp add: WithID_def assign_u_def)

lemma escape_append:
  "escape (s @ t) = escape s @ escape t"
  by (induction s) simp_all

text \<open>
  The chain \<^verbatim>\<open>URL(c, LibraryPath).WithID("lib-1").WithAction("sync")\<close> on the connection of
  \<^verbatim>\<open>https://host\<close>.
\<close>

lemma library_sync_example:
  "result_path (and_then (WithID (Some 0) ''lib-1'' library_heap)
                         (\<lambda>(r', h'). WithAction r' ''sync'' h')) =
     Some ''/rest/com/vmware/content/library/id:lib-1''
   \<and> result_query (and_then (WithID (Some 0) ''lib-1'' library_heap)
                            (\<lambda>(r', h'). WithAction r' ''sync'' h')) =
     Some ''~action=sync''"
proof -
  note d = library_heap_deref
  have d': "deref_u (Some 0) (library_heap\<lparr>urls := us\<rparr>) = Inr 0" for us
    by (simp add: deref_u_assign d)
  have s: "QueryEscape ''sync'' = ''sync''"
    by (simp add: QueryEscape_def escape_byte_def shouldEscape_def)
  show ?thesis
    by (simp add: and_then_def WithID_ok [OF d] WithAction_ok [OF d'] s library_heap_url
        result_path_def result_query_def path_of_def query_of_def d')
qed

text \<open>
  Claim C3. On every resource, \<open>WithAction\<close> and \<open>WithParameter\<close> assign the whole query string:
  a call of either after a call of either leaves the heap that the later call alone leaves,
  so nothing of the earlier query stays. After \<open>WithAction ''a''\<close> and then
  \<open>WithParameter ''x'' ''y''\<close> the query string is \<^verbatim>\<open>x=y\<close>. The query string after a call is the
  encoding of the one pair of that call, whatever the query string was before.
\<close>

theorem query_last_writer_wins:
  assumes "deref_u r h = Inr p"
  shows "and_then (WithAction r a h) (\<lambda>(r', h'). WithParameter r' n v h') = WithParameter r n v h
       \<and> and_then (WithParameter r n v h) (\<lambda>(r', h'). WithAction r' a h') = WithAction r a h
       \<and> and_then (WithAction r b h) (\<lambda>(r', h'). WithAction r' a h') = WithAction r a h
       \<and> and_then (WithParameter r m w h) (\<lambda>(r', h'). WithParameter r' n v h') =
           WithParameter r n v h
       \<and> result_query (and_then (WithAction r ''a'' h) (\<lambda>(r', h'). WithParameter r' ''x'' ''y'' h'))
           = Some ''x=y''
       \<and> result_query (WithAction r a h) = Some (Values_Encode [(''~action'', [a])])
       \<and> result_query (WithParameter r n v h) = Some (Values_Encode [(n, [v])])"
proof -
  have d: "deref_u r (h\<lparr>urls := us\<rparr>) = Inr p" for us
    using assms by (simp add: deref_u_assign)
  have xy: "QueryEscape ''x'' @ ''='' @ QueryEscape ''y'' = ''x=y''"
    by (simp add: QueryEscape_def escape_byte_def shouldEscape_def)
  have 1: "and_then (WithAction r a h) (\<lambda>(r', h'). WithParameter r' n v h') = WithParameter r n v h"
    for a n v
    by (simp add: and_then_def WithAction_ok [OF assms] WithParameter_ok [OF assms]
        WithParameter_ok [OF d])
  have 2: "and_then (WithParameter r n v h) (\<lambda>(r', h'). WithAction r' a h') = WithAction r a h"
    by (simp add: and_then_def WithAction_ok [OF assms] WithParameter_ok [OF assms]
        WithAction_ok [OF d])
  have 3: "and_then (WithAction r b h) (\<lambda>(r', h'). WithAction r' a h') = WithAction r a h"
    by (simp add: and_then_def WithAction_ok [OF assms] WithAction_ok [OF d])
  have 4: "and_then (WithParameter r m w h) (\<lambda>(r', h'). WithParameter r' n v h') =
           WithParameter r n v h"
    by (simp add: and_then_def WithParameter_ok [OF assms] WithParameter_ok [OF d])
  have 5: "result_query (and_then (WithAction r ''a'' h) (\<lambda>(r', h'). WithParameter r' ''x'' ''y'' h'))
           = Some ''x=y''"
    by (simp only: 1 WithParameter_ok [OF assms] result_query_Inr [OF assms] xy) simp
  have 6: "result_query (WithAction r a h) = Some (Values_Encode [(''~action'', [a])])"
    by (simp add: WithAction_ok [OF assms] result_query_Inr [OF assms] Values_Encode_single
        QueryEscape_action)
  have 7: "result_query (WithParameter r n v h) = Some (Values_Encode [(n, [v])])"
    by (simp add: WithParameter_ok [OF assms] result_query_Inr [OF assms] Values_Encode_single)
  show ?thesis
    by (intro conjI 1 2 3 4 5 6 7)
qed

theorem query_last_writer_wins_witness:
  "deref_u (Some 0) library_heap = Inr 0
   \<and> result_query (and_then (WithAction (Some 0) ''a'' library_heap)
                            (\<lambda>(r', h'). WithParameter r' ''x'' ''y'' h')) = Some ''x=y''
   \<and> result_query (and_then (WithParameter (Some 0) ''x'' ''y'' library_heap)
                            (\<lambda>(r', h'). WithAction r' ''a'' h')) = Some ''~action=a''"
proof -
  note d = library_heap_deref
  note t = query_last_writer_wins [OF d]
  have a: "result_query (and_then (WithAction (Some 0) ''a'' library_heap)
                            (\<lambda>(r', h'). WithParameter r' ''x'' ''y'' h')) = Some ''x=y''"
    using t by blast
  have e: "Values_Encode [(''~action'', [''a''])] = ''~action=a''"
    by (simp add: Values_Encode_def QueryEscape_def escape_byte_def shouldEscape_def)
  have "and_then (WithParameter (Some 0) ''x'' ''y'' library_heap)
                 (\<lambda>(r', h'). WithAction r' ''a'' h') = WithAction (Some 0) ''a'' library_heap"
    using t by blast
  moreover have "result_query (WithAction (Some 0) ''a'' library_heap) =
                   Some (Values_Encode [(''~action'', [''a''])])"
    using t by blast
  ultimately have b: "result_query (and_then (WithParameter (Some 0) ''x'' ''y'' library_heap)
                            (\<lambda>(r', h'). WithAction r' ''a'' h')) = Some ''~action=a''"
    by (simp only: e)
  show ?thesis
    by (intro conjI d a b)
qed

text \<open>
  Claim C10. On every resource, \<open>WithParameter\<close> leaves the query string
  \<^verbatim>\<open>QueryEscape(name) = QueryEscape(value)\<close> and \<open>WithAction\<close> leaves \<^verbatim>\<open>~action=\<close> followed by
  \<^verbatim>\<open>QueryEscape(action)\<close>. \<open>QueryEscape\<close> works byte by byte: a space becomes \<^verbatim>\<open>+\<close>, a byte
  that is not a letter, a digit or one of \<^verbatim>\<open>- _ . ~\<close> becomes \<^verbatim>\<open>%\<close> and its two upper-case
  hexadecimal digits, and the other bytes stay. \<open>WithID\<close> appends its id to the path as it is:
  the name \<^verbatim>\<open>a b&c\<close> is written \<^verbatim>\<open>a+b%26c\<close> in the query string and \<^verbatim>\<open>/id:a b&c\<close> in the path.
\<close>

theorem query_is_escaped_id_is_verbatim:
  assumes "deref_u r h = Inr p"
  shows "result_query (WithParameter r n v h) = Some (QueryEscape n @ ''='' @ QueryEscape v)
       \<and> result_query (WithAction r a h) = Some (''~action='' @ QueryEscape a)
       \<and> result_path (WithID r i h) = Some (url_Path (urls h p) @ ''/id:'' @ i)
       \<and> QueryEscape (s @ t) = QueryEscape s @ QueryEscape t
       \<and> QueryEscape [c] =
           (if c = CHR '' '' then ''+''
            else if shouldEscape c then
              [CHR ''%'', upperhex ! (of_char c div 16), upperhex ! (of_char c mod 16)]
            else [c])
       \<and> result_query (WithParameter r ''a b&c'' ''d/e=f'' h) = Some ''a+b%26c=d%2Fe%3Df''
       \<and> result_path (WithID r ''a b&c'' h) = Some (url_Path (urls h p) @ ''/id:a b&c'')"
proof -
  have 1: "result_query (WithParameter r n v h) = Some (QueryEscape n @ ''='' @ QueryEscape v)"
    for n v
    by (simp add: WithParameter_ok [OF assms] result_query_Inr [OF assms])
  have 2: "result_query (WithAction r a h) = Some (''~action='' @ QueryEscape a)"
    by (simp add: WithAction_ok [OF assms] result_query_Inr [OF assms])
  have 3: "result_path (WithID r i h) = Some (url_Path (urls h p) @ ''/id:'' @ i)" for i
    by (simp add: WithID_ok [OF assms] result_path_Inr [OF assms])
  have 4: "QueryEscape (s @ t) = QueryEscape s @ QueryEscape t"
    by (simp add: QueryEscape_def escape_append)
  have 5: "QueryEscape [c] =
           (if c = CHR '' '' then ''+''
            else if shouldEscape c then
              [CHR ''%'', upperhex ! (of_char c div 16), upperhex ! (of_char c mod 16)]
            else [c])"
    by (simp add: QueryEscape_def escape_byte_def)
  have e: "QueryEscape ''a b&c'' @ ''='' @ QueryEscape ''d/e=f'' = ''a+b%26c=d%2Fe%3Df''"
    by (simp add: QueryEscape_def escape_byte_def shouldEscape_def upperhex_def)
  have 6: "result_query (WithParameter r ''a b&c'' ''d/e=f'' h) = Some ''a+b%26c=d%2Fe%3Df''"
    by (simp only: 1 e)
  have 7: "result_path (WithID r ''a b&c'' h) = Some (url_Path (urls h p) @ ''/id:a b&c'')"
    by (simp add: 3)
  show ?thesis
    by (intro conjI 1 2 3 4 5 6 7)
qed

theorem query_is_escaped_id_is_verbatim_witness:
  "deref_u (Some 0) library_heap = Inr 0
   \<and> result_query (WithParameter (Some 0) ''a b&c'' ''d/e=f'' library_heap) =
       Some ''a+b%26c=d%2Fe%3Df''
   \<and> result_path (WithID (Some 0) ''a b&c'' library_heap) =
       Some ''/rest/com/vmware/content/library/id:a b&c''"
proof -
  note d = library_heap_deref
  note t = query_is_escaped_id_is_verbatim [OF d]
  have a: "result_query (WithParameter (Some 0) ''a b&c'' ''d/e=f'' library_heap) =
       Some ''a+b%26c=d%2Fe%3Df''"
    using t by blast
  have "result_path (WithID (Some 0) ''a b&c'' library_heap) =
       Some (url_Path (urls library_heap 0) @ ''/id:a b&c'')"
    using t by blast
  then have b: "result_path (WithID (Some 0) ''a b&c'' library_heap) =
       Some ''/rest/com/vmware/content/library/id:a b&c''"
    by (simp add: library_heap_url)
  show ?thesis
    by (intro conjI d a b)
qed

subsection \<open>The wire types\<close>

text \<open>
  Claim C8. \<open>Reference\<close> gives the managed-object reference with the \<^verbatim>\<open>Type\<close> and the \<^verbatim>\<open>Value\<close> of
  the associated object. For every reference \<open>x\<close> whose \<^verbatim>\<open>Reference()\<close> method \<open>impl\<close> returns \<open>m\<close>,
  \<open>NewAssociation\<close> returns an association whose \<open>ObjectID\<close> is set and has the \<^verbatim>\<open>Type\<close> and the
  \<^verbatim>\<open>Value\<close> of \<open>m\<close>. The two conversions are inverse to each other, and the association made
  from an associated object holds that object.
\<close>

theorem conversions_inverse:
  assumes "impl x = Inr m"
  shows "ManagedObjectReference.Type (Reference obj) = AssociatedObject.Type obj
       \<and> ManagedObjectReference.Value (Reference obj) = AssociatedObject.Value obj
       \<and> NewAssociation impl (Some x) =
           Inr \<lparr>ObjectID = Some \<lparr>AssociatedObject.Type = ManagedObjectReference.Type m,
                                  AssociatedObject.Value = ManagedObjectReference.Value m\<rparr>\<rparr>
       \<and> to_AssociatedObject (Reference obj) = obj
       \<and> Reference (to_AssociatedObject m) = m
       \<and> NewAssociation AssociatedObject_method (Some obj) = Inr \<lparr>ObjectID = Some obj\<rparr>"
  using assms
  by (simp add: Reference_def to_ManagedObjectReference_def to_AssociatedObject_def
      NewAssociation_def AssociatedObject_method_def)

theorem conversions_inverse_witness:
  "AssociatedObject_method \<lparr>AssociatedObject.Type = ''Datacenter'', Value = ''dc-1''\<rparr> =
     Inr \<lparr>ManagedObjectReference.Type = ''Datacenter'', Value = ''dc-1''\<rparr>
   \<and> NewAssociation AssociatedObject_method
        (Some \<lparr>AssociatedObject.Type = ''Datacenter'', Value = ''dc-1''\<rparr>) =
       Inr \<lparr>ObjectID = Some \<lparr>AssociatedObject.Type = ''Datacenter'', Value = ''dc-1''\<rparr>\<rparr>"
proof -
  have m: "AssociatedObject_method \<lparr>AssociatedObject.Type = ''Datacenter'', Value = ''dc-1''\<rparr> =
     Inr \<lparr>ManagedObjectReference.Type = ''Datacenter'', Value = ''dc-1''\<rparr>"
    by (simp add: AssociatedObject_method_def Reference_def to_ManagedObjectReference_def)
  show ?thesis
    using m conversions_inverse [where impl = AssociatedObject_method, OF m]
    by simp
qed

lemma quote_names:
  "quote ''type'' = ''\"type\"''"
  "quote ''id'' = ''\"id\"''"
  "quote ''object_id'' = ''\"object_id\"''"
  by (simp_all add: quote_def htmlSafe_def)

lemma quote_example:
  "quote ''Datacenter'' = ''\"Datacenter\"''"
  "quote ''dc-1'' = ''\"dc-1\"''"
  by (simp_all add: quote_def htmlSafe_def)

text \<open>
  Claim C5. The JSON text of an \<open>AssociatedObject\<close> is an object of the two fields \<^verbatim>\<open>type\<close> and
  \<^verbatim>\<open>id\<close>, in this order, each with its string literal. The JSON text of an \<open>Association\<close>
  whose \<open>ObjectID\<close> is set is an object of the one field \<^verbatim>\<open>object_id\<close> with the text of the
  associated object; when \<open>ObjectID\<close> is \<^verbatim>\<open>nil\<close> the text is the empty object \<^verbatim>\<open>{}\<close>, with no
  \<^verbatim>\<open>object_id\<close> and no \<^verbatim>\<open>null\<close>.
\<close>

theorem wire_format:
  "Marshal (AssociatedObject_value obj) =
     Inr (''{\"type\":'' @ quote (AssociatedObject.Type obj) @ '',\"id\":''
          @ quote (AssociatedObject.Value obj) @ ''}'')
   \<and> Marshal (Association_value \<lparr>ObjectID = Some obj\<rparr>) =
     Inr (''{\"object_id\":{\"type\":'' @ quote (AssociatedObject.Type obj) @ '',\"id\":''
          @ quote (AssociatedObject.Value obj) @ ''}}'')
   \<and> Marshal (Association_value \<lparr>ObjectID = None\<rparr>) = Inr ''{}''"
  by (simp add: AssociatedObject_value_def Association_value_def quote_names)

theorem wire_format_witness:
  "Marshal (Association_value
      \<lparr>ObjectID = Some \<lparr>AssociatedObject.Type = ''Datacenter'', Value = ''dc-1''\<rparr>\<rparr>) =
     Inr ''{\"object_id\":{\"type\":\"Datacenter\",\"id\":\"dc-1\"}}''"
  using wire_format [of "\<lparr>AssociatedObject.Type = ''Datacenter'', Value = ''dc-1''\<rparr>"]
  by (simp add: quote_example)

subsection \<open>The body encoder\<close>

lemma encode_error:
  "Marshal body = Inl err \<Longrightarrow> encode body = errorReader err"
  by (simp add: encode_def Encoder_Encode_def)

lemma encode_ok:
  "Marshal body = Inr s \<Longrightarrow> encode body = Buffer (s @ [CHR 0x0A])"
  by (simp add: encode_def Encoder_Encode_def)

lemma encode_cases:
  "(\<exists>err. encode body = errorReader err) \<or> (\<exists>s. encode body = Buffer (s @ [CHR 0x0A]))"
  by (cases "Marshal body") (simp_all add: encode_error encode_ok)

lemma Reads_errorReader:
  "Reads (errorReader e) ns = replicate (length ns) (- 1, Some e, [])"
  by (induction ns) simp_all

text \<open>
  The reader that \<open>encode\<close> returns for a value with a JSON text holds that text and a newline:
  one \<open>Read\<close> into a slice that is long enough returns all of it, and the next one returns
  \<open>EOF\<close>. The example is the association of the data center \<^verbatim>\<open>dc-1\<close>.
\<close>

lemma encode_Read_all:
  assumes "Marshal body = Inr s"
  shows "Reads (encode body) [Suc (length s), n] =
           [(int (Suc (length s)), None, s @ [CHR 0x0A]),
            (0, if n = 0 then None else Some EOF, [])]"
  by (simp add: encode_ok [OF assms])

lemma encode_Association_example:
  "encode (Association_value
      \<lparr>ObjectID = Some \<lparr>AssociatedObject.Type = ''Datacenter'', Value = ''dc-1''\<rparr>\<rparr>) =
     Buffer (''{\"object_id\":{\"type\":\"Datacenter\",\"id\":\"dc-1\"}}'' @ [CHR 0x0A])"
  by (rule encode_ok)
    (simp add: AssociatedObject_value_def Association_value_def quote_names quote_example)

text \<open>
  Claim C2. For every body whose JSON serialization fails with an error \<open>err\<close>, \<open>encode\<close> returns
  a reader all the same, the \<open>errorReader\<close> that stores \<open>err\<close>; and the first \<open>Read\<close> on that
  reader, with a slice of any length, returns \<open>err\<close> (with the count -1 and no bytes).
\<close>

theorem encode_defers_error:
  assumes "Marshal body = Inl err"
  shows "encode body = errorReader err \<and> fst (Read (encode body) n) = (- 1, Some err, [])"
  using assms by (simp add: encode_error)

theorem encode_defers_error_witness:
  "Marshal (GoStruct [Field ''c'' False GoChan]) = Inl (UnsupportedTypeError ''chan'')
   \<and> encode (GoStruct [Field ''c'' False GoChan]) = errorReader (UnsupportedTypeError ''chan'')
   \<and> fst (Read (encode (GoStruct [Field ''c'' False GoChan])) 512) =
        (- 1, Some (UnsupportedTypeError ''chan''), [])"
proof -
  have m: "Marshal (GoStruct [Field ''c'' False GoChan]) = Inl (UnsupportedTypeError ''chan'')"
    by simp
  show ?thesis
    using m encode_defers_error [OF m, of 512] by simp
qed

text \<open>
  Claim C9. For every body whose JSON serialization fails with an error \<open>err\<close>, every \<open>Read\<close> on
  the reader that \<open>encode\<close> returns, the first and each later one, with slices of any lengths,
  returns the count -1 and the error \<open>err\<close>; a \<open>Read\<close> leaves the reader as it was.
\<close>

theorem errorReader_every_read:
  assumes "Marshal body = Inl err"
  shows "Reads (encode body) ns = replicate (length ns) (- 1, Some err, [])
       \<and> snd (Read (encode body) n) = encode body"
  using assms by (simp add: encode_error Reads_errorReader)

theorem errorReader_every_read_witness:
  "Marshal GoFunc = Inl (UnsupportedTypeError ''func'')
   \<and> Reads (encode GoFunc) [512, 0, 4096] =
       [(- 1, Some (UnsupportedTypeError ''func''), []),
        (- 1, Some (UnsupportedTypeError ''func''), []),
        (- 1, Some (UnsupportedTypeError ''func''), [])]"
proof -
  have m: "Marshal GoFunc = Inl (UnsupportedTypeError ''func'')"
    by simp
  have "Reads (encode GoFunc) [512, 0, 4096] =
          replicate (length [512, 0, 4096 :: nat]) (- 1, Some (UnsupportedTypeError ''func''), [])"
    using errorReader_every_read [OF m, of "[512, 0, 4096]"] by blast
  then show ?thesis
    using m by (simp add: numeral_3_eq_3)
qed

subsection \<open>Request\<close>

lemma NewRequest_Body_encode:
  "NewRequest url_Parse method s (encode b) = Inr req \<Longrightarrow> Body req = encode b"
  using encode_cases [of b]
  by (auto simp add: NewRequest_def Let_def split: if_splits sum.splits)

lemma NewRequest_Body_MultiReader:
  "NewRequest url_Parse method s MultiReader = Inr req \<Longrightarrow>
   Body req = MultiReader \<and> ContentLength req = 0"
  by (auto simp add: NewRequest_def Let_def split: if_splits sum.splits)

lemma NewRequest_fails_iff:
  "(\<exists>err. NewRequest url_Parse method s rdr = Inl err) \<longleftrightarrow>
     (\<not> validMethod (if method = [] then ''GET'' else method) \<or> (\<exists>err. url_Parse s = Inl err))"
  by (auto simp add: NewRequest_def Let_def split: if_splits sum.splits)

lemma Request_unfold:
  "deref_u r h = Inr p \<Longrightarrow>
   Request url_String url_Parse r method body h =
     (case NewRequest url_Parse method (url_String (urls h p))
             (case body of [] \<Rightarrow> MultiReader | b # bs \<Rightarrow> encode b) of
        Inl err \<Rightarrow> Inl (Panic err)
      | Inr req \<Rightarrow> Inr req)"
  by (cases body) (simp_all add: Request_def)

lemma library_String:
  "simple_String (urls library_heap 0) = ''https://host/rest/com/vmware/content/library''"
  by (simp add: library_heap_url simple_String_def no_URL_def)

lemma library_Parse:
  "simple_Parse ''https://host/rest/com/vmware/content/library'' =
     Inr (no_URL\<lparr>Scheme := ''https'', Host := ''host'',
                 url_Path := ''/rest/com/vmware/content/library''\<rparr>)"
  by (simp add: simple_Parse_def)

lemma validMethod_examples:
  "validMethod ''GET''" "validMethod ''POST''" "\<not> validMethod ''GE T''"
  by (simp_all add: validMethod_def isTokenByte_def)

text \<open>
  Claim C7. On every resource: a request that \<open>Request\<close> returns for no body has the empty
  \<open>MultiReader\<close> as its body, whose \<open>Read\<close> returns no bytes and \<open>EOF\<close>; a request it returns for
  a body \<open>b\<close> has \<open>encode b\<close> as its body; when \<open>NewRequest\<close> returns an error, \<open>Request\<close> panics
  with that error, and when \<open>NewRequest\<close> returns a request, \<open>Request\<close> returns it. So
  \<open>Request\<close> panics exactly when the method is not a valid one or the URL string does not
  parse, and never for a method and a URL that are well formed.
\<close>

theorem Request_body_and_panic:
  assumes "deref_u r h = Inr p"
  shows "(\<forall>req. Request url_String url_Parse r method [] h = Inr req \<longrightarrow>
            Body req = MultiReader \<and> fst (Read (Body req) n) = (0, Some EOF, []))
       \<and> (\<forall>req. Request url_String url_Parse r method (b # bs) h = Inr req \<longrightarrow>
            Body req = encode b)
       \<and> (\<forall>err. NewRequest url_Parse method (url_String (urls h p))
                  (case body of [] \<Rightarrow> MultiReader | b # bs \<Rightarrow> encode b) = Inl err \<longrightarrow>
            Request url_String url_Parse r method body h = Inl (Panic err))
       \<and> (\<forall>req. NewRequest url_Parse method (url_String (urls h p))
                  (case body of [] \<Rightarrow> MultiReader | b # bs \<Rightarrow> encode b) = Inr req \<longrightarrow>
            Request url_String url_Parse r method body h = Inr req)
       \<and> ((\<exists>e. Request url_String url_Parse r method body h = Inl e) \<longleftrightarrow>
            (\<not> validMethod (if method = [] then ''GET'' else method)
             \<or> (\<exists>err. url_Parse (url_String (urls h p)) = Inl err)))"
proof -
  note unfold = Request_unfold [OF assms]
  have 1: "\<forall>req. Request url_String url_Parse r method [] h = Inr req \<longrightarrow>
            Body req = MultiReader \<and> fst (Read (Body req) n) = (0, Some EOF, [])"
    using NewRequest_Body_MultiReader [of url_Parse "method" "url_String (urls h p)"]
    by (auto simp add: unfold split: sum.splits)
  have 2: "\<forall>req. Request url_String url_Parse r method (b # bs) h = Inr req \<longrightarrow>
            Body req = encode b"
    using NewRequest_Body_encode [of url_Parse "method" "url_String (urls h p)" b]
    by (auto simp add: unfold split: sum.splits)
  have 3: "\<forall>err. NewRequest url_Parse method (url_String (urls h p))
                  (case body of [] \<Rightarrow> MultiReader | b # bs \<Rightarrow> encode b) = Inl err \<longrightarrow>
            Request url_String url_Parse r method body h = Inl (Panic err)"
    by (simp add: unfold)
  have 4: "\<forall>req. NewRequest url_Parse method (url_String (urls h p))
                  (case body of [] \<Rightarrow> MultiReader | b # bs \<Rightarrow> encode b) = Inr req \<longrightarrow>
            Request url_String url_Parse r method body h = Inr req"
    by (simp add: unfold)
  have 5: "(\<exists>e. Request url_String url_Parse r method body h = Inl e) \<longleftrightarrow>
            (\<not> validMethod (if method = [] then ''GET'' else method)
             \<or> (\<exists>err. url_Parse (url_String (urls h p)) = Inl err))"
    using NewRequest_fails_iff [of url_Parse "method" "url_String (urls h p)"
        "case body of [] \<Rightarrow> MultiReader | b # bs \<Rightarrow> encode b"]
    by (auto simp add: unfold split: sum.splits)
  show ?thesis
    by (intro conjI 1 2 3 4 5)
qed

theorem Request_body_and_panic_witness:
  "deref_u (Some 0) library_heap = Inr 0
   \<and> map_sum id Body (Request simple_String simple_Parse (Some 0) ''POST'' [] library_heap) =
       Inr MultiReader
   \<and> map_sum id Body
       (Request simple_String simple_Parse (Some 0) ''POST'' [GoBool True] library_heap) =
       Inr (Buffer (''true'' @ [CHR 0x0A]))
   \<and> Request simple_String simple_Parse (Some 0) ''GE T'' [] library_heap =
       Inl (Panic (InvalidMethod ''GE T''))"
proof -
  note d = library_heap_deref
  note t = Request_body_and_panic [OF d, of simple_String simple_Parse]
  have n: "NewRequest simple_Parse ''POST'' ''https://host/rest/com/vmware/content/library'' rdr =
        Inr \<lparr>Method = ''POST'',
             req_URL = no_URL\<lparr>Scheme := ''https'', Host := ''host'',
                               url_Path := ''/rest/com/vmware/content/library''\<rparr>,
             Body = (case rdr of Buffer b \<Rightarrow> if b = [] then NoBody else rdr | _ \<Rightarrow> rdr),
             ContentLength = (case rdr of Buffer b \<Rightarrow> int (length b) | _ \<Rightarrow> 0)\<rparr>" for rdr
    by (simp add: NewRequest_def validMethod_examples library_Parse)
  have a: "map_sum id Body (Request simple_String simple_Parse (Some 0) ''POST'' [] library_heap) =
       Inr MultiReader"
    using t [of "''POST''" 0 GoNil "[]" "[]"] n [of MultiReader]
    by (simp add: library_String)
  have b: "map_sum id Body
       (Request simple_String simple_Parse (Some 0) ''POST'' [GoBool True] library_heap) =
       Inr (Buffer (''true'' @ [CHR 0x0A]))"
    using t [of "''POST''" 0 "GoBool True" "[]" "[GoBool True]"] n [of "encode (GoBool True)"]
    by (simp add: library_String encode_ok)
  have bad: "NewRequest simple_Parse ''GE T'' s rdr = Inl (InvalidMethod ''GE T'')" for s rdr
    by (simp add: NewRequest_def validMethod_examples)
  have c: "Request simple_String simple_Parse (Some 0) ''GE T'' [] library_heap =
       Inl (Panic (InvalidMethod ''GE T''))"
    using t [of "''GE T''" 0 GoNil "[]" "[]"] bad
    by simp
  show ?thesis
    by (intro conjI d a b c)
qed

end
